theory Spec2Isabelle
  imports Complex_Main
begin

section \<open>Strings as the JavaScript code uses them\<close>

text \<open>
  A JavaScript string is modelled as a \<^typ>\<open>string\<close> (a list of characters).  The
  three string primitives the path code relies on are \<open>String.prototype.split\<close> with a
  one-character separator, \<open>Array.prototype.join\<close> and \<open>String.prototype.startsWith\<close>.
\<close>

text \<open>\<open>s.split(c)\<close>: cuts at every occurrence of \<open>c\<close>; the empty string yields one
  empty piece, adjacent separators yield empty pieces.\<close>

fun split_on :: "char \<Rightarrow> string \<Rightarrow> string list" where
  "split_on c [] = [[]]"
| "split_on c (x # xs) =
     (if x = c then [] # split_on c xs
      else (case split_on c xs of
              [] \<Rightarrow> [[x]]
            | w # ws \<Rightarrow> (x # w) # ws))"

text \<open>\<open>parts.join(sep)\<close>.\<close>

fun join_with :: "string \<Rightarrow> string list \<Rightarrow> string" where
  "join_with sep [] = []"
| "join_with sep [p] = p"
| "join_with sep (p # q # ps) = p @ sep @ join_with sep (q # ps)"

text \<open>\<open>s.startsWith(p)\<close>.\<close>

definition startsWith :: "string \<Rightarrow> string \<Rightarrow> bool" where
  "startsWith s p = (take (length p) s = p)"

text \<open>\<open>xs.slice(0, -2)\<close>: everything but the last two elements (nothing when there are
  fewer than two).\<close>

definition slice_0_m2 :: "'a list \<Rightarrow> 'a list" where
  "slice_0_m2 xs = take (length xs - 2) xs"


section \<open>Path descriptor: \<open>extractPathInfo\<close>\<close>

record PathInfo =
  bucketName :: string
  imagePath  :: string
  configDir  :: string
  folderName :: string
  configKey  :: string

text \<open>
  The two \<open>throw new Error(...)\<close> sites of \<open>extractPathInfo\<close>.  The message of the first
  interpolates the original path name and the extracted parts, the second the image path.
\<close>

datatype path_error =
    TooFewPathParts string "string list"
  | TooFewImagePathParts string

definition extractPathInfo :: "string \<Rightarrow> path_error + PathInfo" where
  "extractPathInfo urlPathname =
     (let path = (if startsWith urlPathname ''/'' then drop 1 urlPathname else urlPathname);
          pathParts = filter (\<lambda>p. p \<noteq> []) (split_on CHR ''/'' path)
      in if length pathParts < 3 then Inl (TooFewPathParts urlPathname pathParts)
         else
           let bucket = pathParts ! 0;
               imgPath = join_with ''/'' (drop 1 pathParts);
               imagePathParts = split_on CHR ''/'' imgPath
           in if length imagePathParts < 2 then Inl (TooFewImagePathParts imgPath)
              else
                let cfgDir = join_with ''/'' (slice_0_m2 imagePathParts);
                    folder = imagePathParts ! (length imagePathParts - 2);
                    cfgKey = cfgDir @ ''/'' @ folder @ ''.json''
                in Inr \<lparr> bucketName = bucket, imagePath = imgPath, configDir = cfgDir,
                          folderName = folder, configKey = cfgKey \<rparr>)"

text \<open>The non-empty segments of a path name, as \<open>extractPathInfo\<close> computes them.\<close>

definition pathSegments :: "string \<Rightarrow> string list" where
  "pathSegments urlPathname =
     filter (\<lambda>p. p \<noteq> [])
       (split_on CHR ''/''
          (if startsWith urlPathname ''/'' then drop 1 urlPathname else urlPathname))"


section \<open>Resource URLs: \<open>buildResourceUrl\<close>\<close>

definition buildResourceUrl :: "string \<Rightarrow> string \<Rightarrow> string \<Rightarrow> string" where
  "buildResourceUrl baseUrl bucket resourcePath =
     (if startsWith baseUrl ''http://'' \<or> startsWith baseUrl ''https://''
      then baseUrl @ ''/'' @ bucket @ ''/'' @ resourcePath
      else ''https://'' @ baseUrl @ ''/'' @ bucket @ ''/'' @ resourcePath)"

text \<open>
  \<open>req.query.baseUrl || process.env.BASE_URL || BASE_URL\<close> with
  \<open>BASE_URL = process.env.BASE_URL || 'https://o.nfarmer.uk'\<close>: an absent value and the
  empty string are both falsy.
\<close>

definition truthy :: "string option \<Rightarrow> bool" where
  "truthy v = (case v of None \<Rightarrow> False | Some s \<Rightarrow> s \<noteq> [])"

definition BASE_URL :: "string option \<Rightarrow> string" where
  "BASE_URL envBaseUrl = (if truthy envBaseUrl then the envBaseUrl else ''https://o.nfarmer.uk'')"

definition customBaseUrl :: "string option \<Rightarrow> string option \<Rightarrow> string" where
  "customBaseUrl queryBaseUrl envBaseUrl =
     (if truthy queryBaseUrl then the queryBaseUrl
      else if truthy envBaseUrl then the envBaseUrl
      else BASE_URL envBaseUrl)"


section \<open>Text layout: the line list of \<open>drawTextOnCanvas\<close> and \<open>drawElementOnCanvas\<close>\<close>

text \<open>
  \<open>ctx.measureText(s).width\<close> is a service of the canvas backend; it is a parameter
  \<open>measureText\<close> of the model (for the font set on the context at that moment).  Widths and
  box sizes are JavaScript numbers, modelled as reals.
\<close>

text \<open>
  Body of \<open>words.forEach(word => ...)\<close>: the state is the list \<open>measuredLines\<close> built so
  far and \<open>currentLine\<close>.
\<close>

definition wrapWord :: "(string \<Rightarrow> real) \<Rightarrow> real \<Rightarrow> string list \<times> string \<Rightarrow> string
                          \<Rightarrow> string list \<times> string" where
  "wrapWord measureText maxWidth state word =
     (let measuredLines = fst state;
          currentLine = snd state;
          testLine = currentLine @ (if currentLine \<noteq> [] then '' '' else []) @ word
      in if measureText testLine > maxWidth \<and> currentLine \<noteq> []
         then (measuredLines @ [currentLine], word)
         else (measuredLines, testLine))"

text \<open>
  The wrapping branch for one hard line: split at spaces, run the word loop from an empty
  current line, push what is left if it is non-empty.
\<close>

definition wrapLine :: "(string \<Rightarrow> real) \<Rightarrow> real \<Rightarrow> string list \<Rightarrow> string \<Rightarrow> string list" where
  "wrapLine measureText maxWidth measuredLines line =
     (let state = foldl (wrapWord measureText maxWidth) (measuredLines, []) (split_on CHR '' '' line)
      in if snd state \<noteq> [] then fst state @ [snd state] else fst state)"

text \<open>Body of \<open>lines.forEach(line => ...)\<close> in \<open>drawTextOnCanvas\<close> (server.js).\<close>

definition textLineStep :: "(string \<Rightarrow> real) \<Rightarrow> real \<Rightarrow> string list \<Rightarrow> string \<Rightarrow> string list" where
  "textLineStep measureText w measuredLines line =
     (if measureText line > w \<and> w > 0 then wrapLine measureText w measuredLines line
      else measuredLines @ [line])"

definition textLines :: "(string \<Rightarrow> real) \<Rightarrow> real \<Rightarrow> string \<Rightarrow> string list" where
  "textLines measureText w text =
     foldl (textLineStep measureText w) [] (split_on CHR 0x0A text)"

text \<open>
  The same in \<open>drawElementOnCanvas\<close>, with the \<open>whiteSpace\<close> mode: the hard lines first,
  then the loop over them.
\<close>

definition hardLines :: "string \<Rightarrow> string \<Rightarrow> string list" where
  "hardLines whiteSpace text =
     (if whiteSpace = ''pre'' \<or> whiteSpace = ''pre-wrap'' then split_on CHR 0x0A text
      else if whiteSpace = ''nowrap'' then [text]
      else split_on CHR 0x0A text)"

definition elementLineStep :: "(string \<Rightarrow> real) \<Rightarrow> real \<Rightarrow> string \<Rightarrow> string list \<Rightarrow> string
                                \<Rightarrow> string list" where
  "elementLineStep measureText textWidth whiteSpace measuredLines line =
     (if whiteSpace = ''nowrap'' \<or> whiteSpace = ''pre'' then measuredLines @ [line]
      else if measureText line > textWidth \<and> textWidth > 0
           then wrapLine measureText textWidth measuredLines line
           else measuredLines @ [line])"

definition elementLines :: "(string \<Rightarrow> real) \<Rightarrow> real \<Rightarrow> string \<Rightarrow> string \<Rightarrow> string list" where
  "elementLines measureText textWidth whiteSpace text =
     foldl (elementLineStep measureText textWidth whiteSpace) [] (hardLines whiteSpace text)"

text \<open>
  \<open>parsePadding\<close>.  \<open>paddingString.match(/(\d+)px/g)\<close> finds, left to right, every maximal
  run of decimal digits that is directly followed by \<open>px\<close>; \<open>scanPx\<close> carries the digits of
  the run being read.  \<open>parseInt\<close> of such a match is the value of its digits.
\<close>

definition isDigit :: "char \<Rightarrow> bool" where
  "isDigit c = (48 \<le> (of_char c :: nat) \<and> (of_char c :: nat) \<le> 57)"

fun scanPx :: "string \<Rightarrow> string \<Rightarrow> string list" where
  "scanPx run [] = []"
| "scanPx run (c # cs) =
     (if isDigit c then scanPx (run @ [c]) cs
      else if run \<noteq> [] \<and> c = CHR ''p'' \<and> (case cs of [] \<Rightarrow> False | d # _ \<Rightarrow> d = CHR ''x'')
           then run # scanPx [] cs
           else scanPx [] cs)"

definition parseDigits :: "string \<Rightarrow> nat" where
  "parseDigits ds = foldl (\<lambda>n c. 10 * n + ((of_char c :: nat) - 48)) 0 ds"

record Padding =
  pad_top :: nat
  pad_right :: nat
  pad_bottom :: nat
  pad_left :: nat

definition parsePadding :: "string option \<Rightarrow> Padding" where
  "parsePadding paddingString =
     (if \<not> truthy paddingString then \<lparr> pad_top = 0, pad_right = 0, pad_bottom = 0, pad_left = 0 \<rparr>
      else
        let nums = map parseDigits (scanPx [] (the paddingString))
        in if length nums = 1
           then \<lparr> pad_top = nums ! 0, pad_right = nums ! 0, pad_bottom = nums ! 0, pad_left = nums ! 0 \<rparr>
           else if length nums = 2
           then \<lparr> pad_top = nums ! 0, pad_right = nums ! 1, pad_bottom = nums ! 0, pad_left = nums ! 1 \<rparr>
           else if length nums = 4
           then \<lparr> pad_top = nums ! 0, pad_right = nums ! 1, pad_bottom = nums ! 2, pad_left = nums ! 3 \<rparr>
           else \<lparr> pad_top = 0, pad_right = 0, pad_bottom = 0, pad_left = 0 \<rparr>)"

text \<open>\<open>textWidth = w - paddingValues.left - paddingValues.right\<close>.\<close>

definition textWidth :: "real \<Rightarrow> string option \<Rightarrow> real" where
  "textWidth w padding =
     w - real (pad_left (parsePadding padding)) - real (pad_right (parsePadding padding))"



text \<open>A concrete measuring function for examples: every character is ten units wide.\<close>

definition charWidth10 :: "string \<Rightarrow> real" where
  "charWidth10 s = 10 * real (length s)"


section \<open>The world outside the process\<close>

text \<open>
  Everything the handlers obtain from outside is a field of one record: the answers of
  \<open>fetch\<close>, the JSON parser behind \<open>response.json()\<close>, the image decoder \<open>loadImage\<close>, the
  built-in \<open>decodeURIComponent\<close> (no value when it throws \<open>URIError\<close>), the text metrics of
  the canvas backend per font, the WHATWG URL parser (\<open>new URL(u).pathname\<close>, no value when
  it throws), MD5 in hexadecimal, \<open>path.extname\<close>, the outcome of
  \<open>GlobalFonts.registerFromPath\<close>, the cache directory and \<open>process.env.BASE_URL\<close>.
  Response bodies and file contents are byte strings.

  The backend call \<open>GlobalFonts.registerFromPath(path, family)\<close> either throws or returns
  a value through which it reports whether the file was registered (a key on success,
  \<open>null\<close> when the file could not be registered as a font): \<open>Returns True\<close> and
  \<open>Returns False\<close>.
\<close>

datatype backend_result =
    Throws
  | Returns bool

datatype fetch_result =
    NetworkError
  | Response bool nat string

datatype Font = Font string real string

record Image =
  img_width :: real
  img_height :: real

record Style =
  st_x :: "real option"
  st_y :: "real option"
  st_width :: "real option"
  st_height :: "real option"
  st_verticalAlign :: "string option"
  st_fontSize :: "real option"
  st_fontFamily :: "string option"
  st_fill :: "string option"
  st_stroke :: "string option"
  st_strokeWidth :: "real option"
  st_textAlign :: "string option"
  st_lineHeight :: "real option"
  st_fontWeight :: "string option"
  st_backgroundColor :: "string option"
  st_padding :: "string option"
  st_borderRadius :: "string option"
  st_borderWidth :: "string option"
  st_borderColor :: "string option"
  st_filter :: "string option"
  st_whiteSpace :: "string option"

record Element =
  el_query :: "string option"
  el_style :: "Style option"
  el_useR2Font :: bool

record FontSettings =
  fs_mode :: "string option"
  fs_r2FontFilename :: "string option"

record Config =
  cfg_imageSize_width :: "real option"
  cfg_imageSize_height :: "real option"
  cfg_elements :: "Element list"
  cfg_defaultStyle :: Style
  cfg_fontSettings :: FontSettings

record World =
  fetch :: "string \<Rightarrow> fetch_result"
  parseJson :: "string \<Rightarrow> Config option"
  loadImage :: "string \<Rightarrow> Image option"
  decodeURIComponent :: "string \<Rightarrow> string option"
  measureTextWidth :: "Font \<Rightarrow> string \<Rightarrow> real"
  urlPathname :: "string \<Rightarrow> string option"
  md5hex :: "string \<Rightarrow> string"
  extname :: "string \<Rightarrow> string"
  registerFromPath :: "string \<Rightarrow> string \<Rightarrow> backend_result"
  FONT_CACHE_DIR :: string
  envBaseUrl :: "string option"


section \<open>Font cache: \<open>registerFontFromUrl\<close>\<close>

text \<open>
  The process-wide state of the font code: the set \<open>registeredFonts\<close> and the cache
  directory on disk (file name to contents).  \<open>ioLog\<close> is a trace added by the model: every
  disk probe, disk read, network fetch, disk write and backend registration performed is
  appended to it, so that "no network or disk work" can be stated.
\<close>

datatype io_event =
    ExistsSync string
  | ReadFileSync string
  | FetchUrl string
  | WriteFileSync string
  | RegisterFromPath string string

record FontState =
  registeredFonts :: "string set"
  cacheFiles :: "string \<rightharpoonup> string"
  ioLog :: "io_event list"

datatype font_error =
    BadFontUrl string
  | FontFetchRejected
  | FontHttpError nat
  | EmptyFontFile
  | RegisterThrew

definition logIo :: "io_event \<Rightarrow> FontState \<Rightarrow> FontState" where
  "logIo ev st = st\<lparr> ioLog := ioLog st @ [ev] \<rparr>"

text \<open>
  The last two statements of the \<open>try\<close> block:
  \<open>GlobalFonts.registerFromPath(cacheFile, fontFamily); registeredFonts.add(fontFamily);\<close>
  The value returned by the backend is discarded: the family is added whenever the call
  returns.
\<close>

definition registerAndAdd :: "World \<Rightarrow> string \<Rightarrow> string \<Rightarrow> FontState
                               \<Rightarrow> (font_error + unit) \<times> FontState" where
  "registerAndAdd w cacheFile fontFamily st =
     (let st1 = logIo (RegisterFromPath cacheFile fontFamily) st
      in case registerFromPath w cacheFile fontFamily of
           Throws \<Rightarrow> (Inl RegisterThrew, st1)
         | Returns registered \<Rightarrow>
             (Inr (), st1\<lparr> registeredFonts := insert fontFamily (registeredFonts st1) \<rparr>))"

text \<open>
  \<open>registerFontFromUrl\<close>.  The \<open>catch\<close> block logs and rethrows, so every error leaves as
  it arose.
\<close>

definition registerFontFromUrl :: "World \<Rightarrow> string \<Rightarrow> string \<Rightarrow> FontState
                                    \<Rightarrow> (font_error + unit) \<times> FontState" where
  "registerFontFromUrl w fontUrl fontFamily st =
     (if fontFamily \<in> registeredFonts st then (Inr (), st)
      else
        let urlHash = md5hex w fontUrl
        in case urlPathname w fontUrl of
             None \<Rightarrow> (Inl (BadFontUrl fontUrl), st)
           | Some urlPath \<Rightarrow>
               let ext = (if extname w urlPath \<noteq> [] then extname w urlPath else ''.ttf'');
                   cacheFile = FONT_CACHE_DIR w @ ''/'' @ urlHash @ ext;
                   st1 = logIo (ExistsSync cacheFile) st
               in case cacheFiles st1 cacheFile of
                    Some fontBuffer \<Rightarrow>
                      registerAndAdd w cacheFile fontFamily (logIo (ReadFileSync cacheFile) st1)
                  | None \<Rightarrow>
                      let st2 = logIo (FetchUrl fontUrl) st1
                      in case fetch w fontUrl of
                           NetworkError \<Rightarrow> (Inl FontFetchRejected, st2)
                         | Response ok status fontBuffer \<Rightarrow>
                             if \<not> ok then (Inl (FontHttpError status), st2)
                             else if fontBuffer = [] then (Inl EmptyFontFile, st2)
                             else
                               registerAndAdd w cacheFile fontFamily
                                 (logIo (WriteFileSync cacheFile)
                                    (st2\<lparr> cacheFiles := (cacheFiles st2)(cacheFile \<mapsto> fontBuffer) \<rparr>)))"



section \<open>Text decoding: \<open>decodeText\<close>\<close>

text \<open>\<open>.replace(/_/g, ' ')\<close>\<close>

definition replaceUnderscores :: "string \<Rightarrow> string" where
  "replaceUnderscores s = map (\<lambda>c. if c = CHR ''_'' then CHR '' '' else c) s"

text \<open>\<open>.replace(/%0A/gi, '\n')\<close>: left to right, without overlap, in either letter case.\<close>

fun replacePercent0A :: "string \<Rightarrow> string" where
  "replacePercent0A (a # b # c # rest) =
     (if a = CHR ''%'' \<and> b = CHR ''0'' \<and> (c = CHR ''A'' \<or> c = CHR ''a'')
      then CHR 0x0A # replacePercent0A rest
      else a # replacePercent0A (b # c # rest))"
| "replacePercent0A s = s"

datatype error =
    PathError path_error
  | ConfigFetchFailed string nat
  | ImageFetchFailed string nat
  | FetchRejected string
  | ConfigParseFailed
  | ImageDecodeFailed
  | URIError

text \<open>
  \<open>decodeText(text)\<close> for a query value that is a string or absent: a falsy value gives
  the empty string.
\<close>

definition decodeText :: "World \<Rightarrow> string option \<Rightarrow> error + string" where
  "decodeText w text =
     (if \<not> truthy text then Inr []
      else case decodeURIComponent w (the text) of
             None \<Rightarrow> Inl URIError
           | Some decoded \<Rightarrow> Inr (replacePercent0A (replaceUnderscores decoded)))"


section \<open>The drawing surface\<close>

text \<open>
  Pixels are not modelled.  A canvas is its size and the sequence of drawing calls issued on
  its context: \<open>drawImage\<close> of the base image, \<open>strokeText\<close> and \<open>fillText\<close> with the font,
  paint, alignment and position in force, the composite of the off-screen background canvas
  of \<open>drawElementOnCanvas\<close> (described by the box and the style it is painted from), its
  direct background fill, and the drawing of the error placeholder.  The canvas backend is
  taken to be total: creating a canvas, drawing and encoding do not throw.
\<close>

datatype draw_op =
    DrawImage Image real real real real
  | DrawBgCanvas real real real real Style
  | FillBackground real real real real Style
  | StrokeText Font string real string real real
  | FillText Font string string string real real
  | ErrorCard error

record Canvas =
  cv_width :: real
  cv_height :: real
  cv_ops :: "draw_op list"

text \<open>Destructuring with a default: \<open>{ key = d } = style\<close>.\<close>

definition orDefault :: "'a option \<Rightarrow> 'a \<Rightarrow> 'a" where
  "orDefault v d = (case v of None \<Rightarrow> d | Some a \<Rightarrow> a)"

text \<open>The final \<open>measuredLines.forEach((line, index) => ...)\<close> of both drawing functions.\<close>

definition drawLines :: "Font \<Rightarrow> string \<Rightarrow> string \<Rightarrow> real \<Rightarrow> string \<Rightarrow> real \<Rightarrow> real \<Rightarrow> real
                          \<Rightarrow> string list \<Rightarrow> draw_op list" where
  "drawLines font fillStyle stroke strokeWidth textAlign textX startY lineHeightPx measuredLines =
     concat (map (\<lambda>(index, line).
                    (if strokeWidth > 0 \<and> stroke \<noteq> []
                     then [StrokeText font stroke strokeWidth line textX
                             (startY + real index * lineHeightPx)]
                     else [])
                    @ [FillText font fillStyle textAlign line textX
                         (startY + real index * lineHeightPx)])
                 (enumerate 0 measuredLines))"

definition startYOf :: "string \<Rightarrow> real \<Rightarrow> real \<Rightarrow> real \<Rightarrow> real" where
  "startYOf verticalAlign y h totalHeight =
     (if verticalAlign = ''middle'' \<or> verticalAlign = ''center''
      then y + max 0 ((h - totalHeight) / 2)
      else if verticalAlign = ''bottom'' then y + max 0 (h - totalHeight)
      else y)"

definition textXOf :: "string \<Rightarrow> real \<Rightarrow> real \<Rightarrow> real" where
  "textXOf textAlign x w =
     (if textAlign = ''center'' then x + w / 2
      else if textAlign = ''right'' then x + w
      else x)"

text \<open>\<open>drawTextOnCanvas(ctx, text, style)\<close> of server.js: the calls it adds to the canvas.\<close>

definition drawTextOnCanvas :: "World \<Rightarrow> Canvas \<Rightarrow> string \<Rightarrow> Style \<Rightarrow> Canvas" where
  "drawTextOnCanvas world canvas text style =
     (let x = orDefault (st_x style) 0;
          y = orDefault (st_y style) 0;
          w = orDefault (st_width style) (cv_width canvas);
          h = orDefault (st_height style) (cv_height canvas);
          verticalAlign = orDefault (st_verticalAlign style) ''top'';
          fontSize = orDefault (st_fontSize style) 24;
          fontFamily = orDefault (st_fontFamily style) ''sans-serif'';
          fillStyle = orDefault (st_fill style) ''#000000'';
          stroke = orDefault (st_stroke style) ''#ffffff'';
          strokeWidth = orDefault (st_strokeWidth style) 0;
          textAlign = orDefault (st_textAlign style) ''left'';
          lineHeight = orDefault (st_lineHeight style) (12 / 10);
          fontWeight = orDefault (st_fontWeight style) ''normal'';
          font = Font fontWeight fontSize fontFamily;
          lineHeightPx = fontSize * lineHeight;
          measuredLines = textLines (measureTextWidth world font) w text;
          totalHeight = real (length measuredLines) * lineHeightPx;
          startY = startYOf verticalAlign y h totalHeight;
          textX = textXOf textAlign x w
      in canvas\<lparr> cv_ops := cv_ops canvas
            @ drawLines font fillStyle stroke strokeWidth textAlign textX startY lineHeightPx
                measuredLines \<rparr>)"

text \<open>
  \<open>drawElementOnCanvas(ctx, text, style)\<close> of the background-capable variant.  The
  background canvas is used when one of \<open>filter\<close>, \<open>backgroundColor\<close>, \<open>borderRadius\<close>,
  \<open>borderWidth\<close> is truthy; otherwise the direct fill runs when \<open>backgroundColor\<close> is truthy.
\<close>

definition drawElementOnCanvas :: "World \<Rightarrow> Canvas \<Rightarrow> string \<Rightarrow> Style \<Rightarrow> Canvas" where
  "drawElementOnCanvas world canvas text style =
     (let x = orDefault (st_x style) 0;
          y = orDefault (st_y style) 0;
          w = orDefault (st_width style) (cv_width canvas);
          h = orDefault (st_height style) (cv_height canvas);
          verticalAlign = orDefault (st_verticalAlign style) ''top'';
          fontSize = orDefault (st_fontSize style) 24;
          fontFamily = orDefault (st_fontFamily style) ''sans-serif'';
          fillStyle = orDefault (st_fill style) ''#000000'';
          stroke = orDefault (st_stroke style) ''#ffffff'';
          strokeWidth = orDefault (st_strokeWidth style) 0;
          textAlign = orDefault (st_textAlign style) ''left'';
          lineHeight = orDefault (st_lineHeight style) (12 / 10);
          fontWeight = orDefault (st_fontWeight style) ''normal'';
          whiteSpace = orDefault (st_whiteSpace style) ''pre-wrap'';
          needsBgCanvas = (truthy (st_filter style) \<or> truthy (st_backgroundColor style)
                            \<or> truthy (st_borderRadius style) \<or> truthy (st_borderWidth style));
          background = (if needsBgCanvas then [DrawBgCanvas x y w h style]
                        else if truthy (st_backgroundColor style) then [FillBackground x y w h style]
                        else []);
          paddingValues = parsePadding (st_padding style);
          textX = x + real (pad_left paddingValues);
          textY = y + real (pad_top paddingValues);
          textW = textWidth w (st_padding style);
          textHeight = h - real (pad_top paddingValues) - real (pad_bottom paddingValues);
          font = Font fontWeight fontSize fontFamily;
          lineHeightPx = fontSize * lineHeight;
          measuredLines = elementLines (measureTextWidth world font) textW whiteSpace text;
          totalHeight = real (length measuredLines) * lineHeightPx;
          startY = startYOf verticalAlign textY textHeight totalHeight;
          textXPos = textXOf textAlign textX textW
      in canvas\<lparr> cv_ops := cv_ops canvas @ background
            @ drawLines font fillStyle stroke strokeWidth textAlign textXPos startY lineHeightPx
                measuredLines \<rparr>)"


section \<open>The wildcard handler \<open>app.get('/*')\<close>\<close>

text \<open>
  The repository holds three copies of this handler: server.js; an earlier, sequential
  copy that decodes the image before it computes the surface size; and a copy that draws
  with \<open>drawElementOnCanvas\<close> (backgrounds, borders, filters, padding, \<open>whiteSpace\<close>).
  They share the statements up to the parsed configuration.  server.js and the copy with
  \<open>drawElementOnCanvas\<close> are modelled in full; of the sequential copy only the surface
  size is modelled.
\<close>

datatype encoding = WebP | PNG

datatype body =
    NoBody
  | JsonBody
  | EncodedImage encoding Canvas
  | RawBytes string

record Response =
  status :: nat
  contentType :: "string option"
  body :: body

record Request =
  originalUrl :: string
  query :: "string \<rightharpoonup> string"

text \<open>\<open>pathname.includes('?') ? pathname.split('?')[0] : pathname\<close>\<close>

definition pathnameOf :: "string \<Rightarrow> string" where
  "pathnameOf url = (if CHR ''?'' \<in> set url then split_on CHR ''?'' url ! 0 else url)"

text \<open>The paths answered before path resolution.\<close>

definition specialResponse :: "string \<Rightarrow> Response option" where
  "specialResponse pathname =
     (if pathname = ''/health''
      then Some \<lparr> status = 200, contentType = Some ''application/json'', body = JsonBody \<rparr>
      else if pathname = ''/favicon.ico'' \<or> startsWith pathname ''/favicon''
      then Some \<lparr> status = 404, contentType = None, body = NoBody \<rparr>
      else if pathname = ''/robots.txt''
      then Some \<lparr> status = 404, contentType = None, body = NoBody \<rparr>
      else if startsWith pathname ''/.well-known''
      then Some \<lparr> status = 404, contentType = None, body = NoBody \<rparr>
      else None)"

text \<open>\<open>fetch(url).then(r => { if (!r.ok) throw ...; return r; })\<close>\<close>

definition fetchOk :: "World \<Rightarrow> string \<Rightarrow> (string \<Rightarrow> nat \<Rightarrow> error) \<Rightarrow> error + string" where
  "fetchOk world url failed =
     (case fetch world url of
        NetworkError \<Rightarrow> Inl (FetchRejected url)
      | Response ok st content \<Rightarrow> if \<not> ok then Inl (failed url st) else Inr content)"

text \<open>
  From path resolution to the parsed configuration and the image bytes; these statements
  are the same in all variants of the handler.  Both fetches are started together; when
  both fail the model reports the configuration's error.
\<close>

definition fetchInputs :: "World \<Rightarrow> Request \<Rightarrow> string
                            \<Rightarrow> error + (PathInfo \<times> string \<times> Config \<times> string)" where
  "fetchInputs world req pathname =
     (case extractPathInfo pathname of
        Inl e \<Rightarrow> Inl (PathError e)
      | Inr info \<Rightarrow>
          let base = customBaseUrl (query req ''baseUrl'') (envBaseUrl world);
              imageUrl = buildResourceUrl base (bucketName info) (imagePath info);
              configUrl = buildResourceUrl base (bucketName info) (configKey info)
          in case fetchOk world configUrl ConfigFetchFailed of
               Inl e \<Rightarrow> Inl e
             | Inr configText \<Rightarrow>
                 (case fetchOk world imageUrl ImageFetchFailed of
                    Inl e \<Rightarrow> Inl e
                  | Inr imageBuffer \<Rightarrow>
                      (case parseJson world configText of
                         None \<Rightarrow> Inl ConfigParseFailed
                       | Some config \<Rightarrow> Inr (info, base, config, imageBuffer))))"

text \<open>\<open>value || d\<close> for an optional number: absent and zero are falsy.\<close>

definition numberOr :: "real option \<Rightarrow> real \<Rightarrow> real" where
  "numberOr v d = (case v of None \<Rightarrow> d | Some n \<Rightarrow> if n = 0 then d else n)"

text \<open>
  Surface size.  server.js and the background-capable variant:
  \<open>imageSize.width || 800\<close>, \<open>imageSize.height || 600\<close>.
\<close>

definition surfaceSize :: "Config \<Rightarrow> real \<times> real" where
  "surfaceSize config =
     (numberOr (cfg_imageSize_width config) 800, numberOr (cfg_imageSize_height config) 600)"

text \<open>
  The sequential variant loads the image first:
  \<open>imageSize.width || image.width || 800\<close>, \<open>imageSize.height || image.height || 600\<close>.
\<close>

definition surfaceSize_sequential :: "Config \<Rightarrow> Image \<Rightarrow> real \<times> real" where
  "surfaceSize_sequential config img =
     (numberOr (cfg_imageSize_width config) (numberOr (Some (img_width img)) 800),
      numberOr (cfg_imageSize_height config) (numberOr (Some (img_height img)) 600))"

definition fontUrlOf :: "string \<Rightarrow> PathInfo \<Rightarrow> FontSettings \<Rightarrow> string option" where
  "fontUrlOf base info fontSettings =
     (if fs_mode fontSettings = Some ''r2'' \<and> truthy (fs_r2FontFilename fontSettings)
      then Some (buildResourceUrl base (bucketName info)
                   (configDir info @ ''/fonts/'' @ the (fs_r2FontFilename fontSettings)))
      else None)"

text \<open>
  \<open>fontUrl ? registerFontFromUrl(fontUrl, 'CustomR2Font').catch(err => null)
  : Promise.resolve(null)\<close>: the boolean is \<open>fontLoaded !== null\<close>.
\<close>

definition loadFont :: "World \<Rightarrow> string option \<Rightarrow> FontState \<Rightarrow> bool \<times> FontState" where
  "loadFont world fontUrl fonts =
     (case fontUrl of
        None \<Rightarrow> (False, fonts)
      | Some url \<Rightarrow>
          (case registerFontFromUrl world url ''CustomR2Font'' fonts of
             (Inl e, fonts') \<Rightarrow> (False, fonts')
           | (Inr u, fonts') \<Rightarrow> (True, fonts')))"

text \<open>\<open>queryParams\<close>: the query without \<open>baseUrl\<close>; \<open>textElements\<close>: the elements whose
  \<open>query\<close> is truthy and a key of \<open>queryParams\<close>.\<close>

definition queryParamsOf :: "Request \<Rightarrow> (string \<rightharpoonup> string)" where
  "queryParamsOf req = (query req)(''baseUrl'' := None)"

definition textElementsOf :: "Config \<Rightarrow> (string \<rightharpoonup> string) \<Rightarrow> Element list" where
  "textElementsOf config queryParams =
     filter (\<lambda>el. truthy (el_query el) \<and> queryParams (the (el_query el)) \<noteq> None)
       (cfg_elements config)"

text \<open>\<open>{ ...defaultStyle, ...element.style }\<close>: field by field, the element's value wins.\<close>

definition orElse :: "'a option \<Rightarrow> 'a option \<Rightarrow> 'a option" where
  "orElse over base = (case over of None \<Rightarrow> base | Some v \<Rightarrow> Some v)"

definition mergeStyle :: "Style \<Rightarrow> Style option \<Rightarrow> Style" where
  "mergeStyle d elementStyle =
     (case elementStyle of
        None \<Rightarrow> d
      | Some e \<Rightarrow>
          \<lparr> st_x = orElse (st_x e) (st_x d),
            st_y = orElse (st_y e) (st_y d),
            st_width = orElse (st_width e) (st_width d),
            st_height = orElse (st_height e) (st_height d),
            st_verticalAlign = orElse (st_verticalAlign e) (st_verticalAlign d),
            st_fontSize = orElse (st_fontSize e) (st_fontSize d),
            st_fontFamily = orElse (st_fontFamily e) (st_fontFamily d),
            st_fill = orElse (st_fill e) (st_fill d),
            st_stroke = orElse (st_stroke e) (st_stroke d),
            st_strokeWidth = orElse (st_strokeWidth e) (st_strokeWidth d),
            st_textAlign = orElse (st_textAlign e) (st_textAlign d),
            st_lineHeight = orElse (st_lineHeight e) (st_lineHeight d),
            st_fontWeight = orElse (st_fontWeight e) (st_fontWeight d),
            st_backgroundColor = orElse (st_backgroundColor e) (st_backgroundColor d),
            st_padding = orElse (st_padding e) (st_padding d),
            st_borderRadius = orElse (st_borderRadius e) (st_borderRadius d),
            st_borderWidth = orElse (st_borderWidth e) (st_borderWidth d),
            st_borderColor = orElse (st_borderColor e) (st_borderColor d),
            st_filter = orElse (st_filter e) (st_filter d),
            st_whiteSpace = orElse (st_whiteSpace e) (st_whiteSpace d) \<rparr>)"


subsection \<open>server.js\<close>

text \<open>
  \<open>textElements.forEach(element => ...)\<close>.  \<open>decodeText\<close> may throw, which ends the loop
  and the \<open>try\<close> block; \<open>if (!text) return;\<close> skips the element.
\<close>

fun drawTextElements :: "World \<Rightarrow> (string \<rightharpoonup> string) \<Rightarrow> Style \<Rightarrow> FontSettings \<Rightarrow> Element list
                           \<Rightarrow> Canvas \<Rightarrow> error + Canvas" where
  "drawTextElements world queryParams defaultStyle fontSettings [] canvas = Inr canvas"
| "drawTextElements world queryParams defaultStyle fontSettings (element # rest) canvas =
     (let merged = mergeStyle defaultStyle (el_style element);
          style = (if el_useR2Font element \<and> fs_mode fontSettings = Some ''r2''
                   then merged\<lparr> st_fontFamily := Some ''CustomR2Font'' \<rparr>
                   else merged)
      in case decodeText world (queryParams (the (el_query element))) of
           Inl e \<Rightarrow> Inl e
         | Inr text \<Rightarrow>
             if text = []
             then drawTextElements world queryParams defaultStyle fontSettings rest canvas
             else drawTextElements world queryParams defaultStyle fontSettings rest
                    (drawTextOnCanvas world canvas text style))"

text \<open>The \<open>try\<close> block after the special paths: the composed canvas, or the error thrown.\<close>

definition render_server :: "World \<Rightarrow> Request \<Rightarrow> string \<Rightarrow> FontState
                              \<Rightarrow> (error + Canvas) \<times> FontState" where
  "render_server world req pathname fonts =
     (case fetchInputs world req pathname of
        Inl e \<Rightarrow> (Inl e, fonts)
      | Inr (info, base, config, imageBuffer) \<Rightarrow>
          let width = fst (surfaceSize config);
              height = snd (surfaceSize config);
              fontUrl = fontUrlOf base info (cfg_fontSettings config);
              loaded = loadFont world fontUrl fonts
          in case loadImage world imageBuffer of
               None \<Rightarrow> (Inl ImageDecodeFailed, snd loaded)
             | Some img \<Rightarrow>
                 let canvas = \<lparr> cv_width = width, cv_height = height,
                                 cv_ops = [DrawImage img 0 0 width height] \<rparr>;
                     queryParams = queryParamsOf req
                 in (drawTextElements world queryParams (cfg_defaultStyle config)
                       (cfg_fontSettings config) (textElementsOf config queryParams) canvas,
                     snd loaded))"

text \<open>\<open>createErrorImage(error.message)\<close>: an 800 by 600 placeholder, encoded as WebP.\<close>

definition createErrorImage :: "error \<Rightarrow> body" where
  "createErrorImage e =
     EncodedImage WebP \<lparr> cv_width = 800, cv_height = 600, cv_ops = [ErrorCard e] \<rparr>"

definition handler_server :: "World \<Rightarrow> Request \<Rightarrow> FontState \<Rightarrow> Response \<times> FontState" where
  "handler_server world req fonts =
     (let pathname = pathnameOf (originalUrl req)
      in case specialResponse pathname of
           Some r \<Rightarrow> (r, fonts)
         | None \<Rightarrow>
             (case render_server world req pathname fonts of
                (Inr canvas, fonts') \<Rightarrow>
                  (\<lparr> status = 200, contentType = Some ''image/webp'',
                      body = EncodedImage WebP canvas \<rparr>, fonts')
              | (Inl e, fonts') \<Rightarrow>
                  (\<lparr> status = 500, contentType = Some ''image/webp'',
                      body = createErrorImage e \<rparr>, fonts')))"

subsection \<open>The variant with \<open>drawElementOnCanvas\<close>\<close>

text \<open>
  The element loop of the background-capable variant: the custom family is used only when
  \<open>r2FontAvailable\<close> holds; otherwise the style keeps its own \<open>fontFamily\<close>.
\<close>

fun drawElements :: "World \<Rightarrow> (string \<rightharpoonup> string) \<Rightarrow> Style \<Rightarrow> FontSettings \<Rightarrow> bool
                       \<Rightarrow> Element list \<Rightarrow> Canvas \<Rightarrow> error + Canvas" where
  "drawElements world queryParams defaultStyle fontSettings r2FontAvailable [] canvas = Inr canvas"
| "drawElements world queryParams defaultStyle fontSettings r2FontAvailable (element # rest) canvas =
     (let merged = mergeStyle defaultStyle (el_style element);
          style = (if el_useR2Font element \<and> fs_mode fontSettings = Some ''r2'' \<and> r2FontAvailable
                   then merged\<lparr> st_fontFamily := Some ''CustomR2Font'' \<rparr>
                   else merged)
      in case decodeText world (queryParams (the (el_query element))) of
           Inl e \<Rightarrow> Inl e
         | Inr text \<Rightarrow>
             if text = []
             then drawElements world queryParams defaultStyle fontSettings r2FontAvailable rest canvas
             else drawElements world queryParams defaultStyle fontSettings r2FontAvailable rest
                    (drawElementOnCanvas world canvas text style))"

definition render_element :: "World \<Rightarrow> Request \<Rightarrow> string \<Rightarrow> FontState
                               \<Rightarrow> (error + Canvas) \<times> FontState" where
  "render_element world req pathname fonts =
     (case fetchInputs world req pathname of
        Inl e \<Rightarrow> (Inl e, fonts)
      | Inr (info, base, config, imageBuffer) \<Rightarrow>
          let width = fst (surfaceSize config);
              height = snd (surfaceSize config);
              fontUrl = fontUrlOf base info (cfg_fontSettings config);
              loaded = loadFont world fontUrl fonts
          in case loadImage world imageBuffer of
               None \<Rightarrow> (Inl ImageDecodeFailed, snd loaded)
             | Some img \<Rightarrow>
                 let r2FontAvailable = (fontUrl \<noteq> None \<and> fst loaded
                                          \<and> ''CustomR2Font'' \<in> registeredFonts (snd loaded));
                     canvas = \<lparr> cv_width = width, cv_height = height,
                                 cv_ops = [DrawImage img 0 0 width height] \<rparr>;
                     queryParams = queryParamsOf req
                 in (drawElements world queryParams (cfg_defaultStyle config)
                       (cfg_fontSettings config) r2FontAvailable
                       (textElementsOf config queryParams) canvas,
                     snd loaded))"

definition errorImageUrl :: string where
  "errorImageUrl = ''https://pub-45268c10da744ce58e66952c8d0c50ba.r2.dev/404.webp''"

text \<open>
  The \<open>catch\<close> block of this variant fetches the placeholder from \<open>errorImageUrl\<close> and sends
  the bytes of whatever response arrives, without looking at its status.  When that fetch
  is rejected the handler's promise is rejected and no response is sent: the result is
  \<open>None\<close>.
\<close>

definition handler_element :: "World \<Rightarrow> Request \<Rightarrow> FontState \<Rightarrow> Response option \<times> FontState" where
  "handler_element world req fonts =
     (let pathname = pathnameOf (originalUrl req)
      in case specialResponse pathname of
           Some r \<Rightarrow> (Some r, fonts)
         | None \<Rightarrow>
             (case render_element world req pathname fonts of
                (Inr canvas, fonts') \<Rightarrow>
                  (Some \<lparr> status = 200, contentType = Some ''image/webp'',
                           body = EncodedImage WebP canvas \<rparr>, fonts')
              | (Inl e, fonts') \<Rightarrow>
                  (case fetch world errorImageUrl of
                     NetworkError \<Rightarrow> (None, fonts')
                   | Response ok st content \<Rightarrow>
                       (Some \<lparr> status = 500, contentType = Some ''image/webp'',
                                body = RawBytes content \<rparr>, fonts'))))"


section \<open>A concrete world for the examples\<close>

definition emptyStyle :: Style where
  "emptyStyle =
     \<lparr> st_x = None, st_y = None, st_width = None, st_height = None, st_verticalAlign = None,
       st_fontSize = None, st_fontFamily = None, st_fill = None, st_stroke = None,
       st_strokeWidth = None, st_textAlign = None, st_lineHeight = None, st_fontWeight = None,
       st_backgroundColor = None, st_padding = None, st_borderRadius = None,
       st_borderWidth = None, st_borderColor = None, st_filter = None, st_whiteSpace = None \<rparr>"

text \<open>
  A configuration without \<open>imageSize\<close>, with one element bound to the query key \<open>t\<close> that
  declares the family \<open>Arial\<close>, a background colour and \<open>useR2Font\<close>, under font mode \<open>r2\<close>.
\<close>

definition sampleConfig :: Config where
  "sampleConfig =
     \<lparr> cfg_imageSize_width = None, cfg_imageSize_height = None,
       cfg_elements =
         [\<lparr> el_query = Some ''t'',
            el_style = Some (emptyStyle\<lparr> st_fontFamily := Some ''Arial'',
                                         st_backgroundColor := Some ''#ffffff'' \<rparr>),
            el_useR2Font = True \<rparr>],
       cfg_defaultStyle = emptyStyle,
       cfg_fontSettings = \<lparr> fs_mode = Some ''r2'', fs_r2FontFilename = Some ''f.ttf'' \<rparr> \<rparr>"

text \<open>
  The storage origin serves the configuration and a 1024 by 768 image for
  \<open>/kbd/A/A/EMO/A/1.webp\<close> and answers 404 with an empty body to everything else, the font
  file and the placeholder URL included.  \<open>decodeURIComponent\<close> is the identity, which is
  what it is on the strings without a percent sign that the examples use.
\<close>

definition sampleWorld :: World where
  "sampleWorld =
     \<lparr> fetch = (\<lambda>url. if url = ''https://o.nfarmer.uk/kbd/A/A/EMO/A.json''
                          then Response True 200 ''{...}''
                        else if url = ''https://o.nfarmer.uk/kbd/A/A/EMO/A/1.webp''
                          then Response True 200 ''RIFF''
                        else Response False 404 []),
       parseJson = (\<lambda>content. Some sampleConfig),
       loadImage = (\<lambda>content. Some \<lparr> img_width = 1024, img_height = 768 \<rparr>),
       decodeURIComponent = Some,
       measureTextWidth = (\<lambda>font. charWidth10),
       urlPathname = (\<lambda>url. Some (drop 20 url)),
       md5hex = (\<lambda>url. ''d41d8cd9''),
       extname = (\<lambda>p. ''.ttf''),
       registerFromPath = (\<lambda>p family. Returns True),
       FONT_CACHE_DIR = ''.font_cache'',
       envBaseUrl = None \<rparr>"


definition noFonts :: FontState where
  "noFonts = \<lparr> registeredFonts = {}, cacheFiles = Map.empty, ioLog = [] \<rparr>"

definition sampleRequest :: "string \<Rightarrow> Request" where
  "sampleRequest t =
     \<lparr> originalUrl = ''/kbd/A/A/EMO/A/1.webp?t='' @ t, query = [''t'' \<mapsto> t] \<rparr>"


section \<open>Facts about splitting and joining\<close>

lemma split_on_nonempty: "split_on c s \<noteq> []"
  by (induction s) (auto split: list.splits)

lemma split_on_no_sep:
  "c \<notin> set s \<Longrightarrow> split_on c s = [s]"
  by (induction s) auto

lemma split_on_append_sep:
  "c \<notin> set p \<Longrightarrow> split_on c (p @ c # rest) = p # split_on c rest"
proof (induction p)
  case Nil
  then show ?case by simp
next
  case (Cons x p)
  then show ?case by (auto split: list.splits)
qed

lemma split_join_segments:
  assumes "ps \<noteq> []" and "\<forall>p \<in> set ps. c \<notin> set p"
  shows "split_on c (join_with [c] ps) = ps"
  using assms
proof (induction "[c]" ps rule: join_with.induct)
  case 1
  then show ?case by simp
next
  case (2 p)
  then show ?case by (simp add: split_on_no_sep)
next
  case (3 p q ps)
  then show ?case by (simp add: split_on_append_sep)
qed

lemma split_on_pieces_sep_free:
  "\<forall>p \<in> set (split_on c s). c \<notin> set p"
proof (induction s)
  case Nil
  then show ?case by simp
next
  case (Cons x s)
  show ?case
  proof (cases "x = c")
    case True
    with Cons show ?thesis by simp
  next
    case False
    obtain w ws where ws: "split_on c s = w # ws"
      using split_on_nonempty [of c s] by (cases "split_on c s") auto
    with Cons False show ?thesis by auto
  qed
qed

lemma pathSegments_sep_free:
  "\<forall>p \<in> set (pathSegments u). CHR ''/'' \<notin> set p"
  using split_on_pieces_sep_free by (auto simp: pathSegments_def)

lemma pathSegments_nonempty_pieces:
  "\<forall>p \<in> set (pathSegments u). p \<noteq> []"
  by (auto simp: pathSegments_def)

lemma extractPathInfo_segments:
  "extractPathInfo u =
     (let pathParts = pathSegments u
      in if length pathParts < 3 then Inl (TooFewPathParts u pathParts)
         else
           let imgPath = join_with ''/'' (drop 1 pathParts);
               imagePathParts = split_on CHR ''/'' imgPath
           in if length imagePathParts < 2 then Inl (TooFewImagePathParts imgPath)
              else Inr \<lparr> bucketName = pathParts ! 0, imagePath = imgPath,
                         configDir = join_with ''/'' (slice_0_m2 imagePathParts),
                         folderName = imagePathParts ! (length imagePathParts - 2),
                         configKey = join_with ''/'' (slice_0_m2 imagePathParts) @ ''/''
                            @ imagePathParts ! (length imagePathParts - 2) @ ''.json'' \<rparr>)"
  by (simp add: extractPathInfo_def pathSegments_def Let_def)

lemma resource_parts_roundtrip:
  assumes "3 \<le> length (pathSegments u)"
  shows "split_on CHR ''/'' (join_with ''/'' (drop 1 (pathSegments u))) = drop 1 (pathSegments u)"
proof -
  have ne: "drop 1 (pathSegments u) \<noteq> []" using assms by simp
  have "\<forall>p \<in> set (drop 1 (pathSegments u)). CHR ''/'' \<notin> set p"
    using pathSegments_sep_free [of u] by (meson in_set_dropD)
  from split_join_segments [OF ne this] show ?thesis by simp
qed


section \<open>Path resolution: results\<close>

text \<open>
  C1 (as amended).  For every inbound path with at least three non-empty segments,
  \<open>extractPathInfo\<close> succeeds; the bucket is the first segment, the image path is the
  remaining segments joined by a slash, the resource segments are exactly those remaining
  segments (so there are at least two of them), the config directory is the resource
  segments without the last two joined by a slash, the folder name is the second-to-last
  resource segment, and the config key is always config directory, a slash, the folder name
  and \<open>.json\<close>.  No special case exists for an empty config directory: the key then starts
  with the slash.
\<close>

theorem extractPathInfo_well_formed:
  assumes "3 \<le> length (pathSegments u)"
  shows "extractPathInfo u =
           Inr \<lparr> bucketName = hd (pathSegments u),
                 imagePath = join_with ''/'' (tl (pathSegments u)),
                 configDir = join_with ''/'' (butlast (butlast (tl (pathSegments u)))),
                 folderName = last (butlast (tl (pathSegments u))),
                 configKey = join_with ''/'' (butlast (butlast (tl (pathSegments u))))
                               @ ''/'' @ last (butlast (tl (pathSegments u))) @ ''.json'' \<rparr>"
proof -
  let ?ps = "pathSegments u"
  let ?rs = "tl ?ps"
  have rt: "split_on CHR ''/'' (join_with ''/'' (drop 1 ?ps)) = ?rs"
    using resource_parts_roundtrip [OF assms] by (simp add: drop_Suc)
  have len: "2 \<le> length ?rs" using assms by simp
  have hd0: "?ps ! 0 = hd ?ps" using assms by (cases ?ps) auto
  have bl: "slice_0_m2 ?rs = butlast (butlast ?rs)"
    by (simp add: slice_0_m2_def butlast_conv_take)
  have "butlast ?rs \<noteq> []" using len by (cases ?rs rule: rev_cases) auto
  then have "last (butlast ?rs) = butlast ?rs ! (length (butlast ?rs) - 1)"
    by (rule last_conv_nth)
  also have "\<dots> = ?rs ! (length ?rs - 2)"
    using len by (simp add: nth_butlast)
  finally have fo: "?rs ! (length ?rs - 2) = last (butlast ?rs)" by simp
  show ?thesis
    using assms len rt hd0 bl fo
    by (simp add: extractPathInfo_segments Let_def drop_Suc)
qed

theorem extractPathInfo_well_formed_witness:
  "3 \<le> length (pathSegments ''/kbd/A/A/EMO/A/1.webp'') \<and>
   extractPathInfo ''/kbd/A/A/EMO/A/1.webp'' =
     Inr \<lparr> bucketName = ''kbd'', imagePath = ''A/A/EMO/A/1.webp'', configDir = ''A/A/EMO'',
           folderName = ''A'', configKey = ''A/A/EMO/A.json'' \<rparr>"
proof -
  have seg: "pathSegments ''/kbd/A/A/EMO/A/1.webp'' = [''kbd'', ''A'', ''A'', ''EMO'', ''A'', ''1.webp'']"
    by (simp add: pathSegments_def startsWith_def)
  have h: "3 \<le> length (pathSegments ''/kbd/A/A/EMO/A/1.webp'')"
    by (simp add: seg)
  show ?thesis
    using h extractPathInfo_well_formed [OF h] by (simp add: seg)
qed

text \<open>
  The claim as written promises \<open>folderName + '.json'\<close> without a leading slash when the
  config directory is empty.  For \<open>/kbd/A/1.webp\<close> the config directory is empty and the
  code returns the key \<open>/A.json\<close>.
\<close>

theorem extractPathInfo_empty_configDir_counterexample:
  "extractPathInfo ''/kbd/A/1.webp'' =
     Inr \<lparr> bucketName = ''kbd'', imagePath = ''A/1.webp'', configDir = '''',
           folderName = ''A'', configKey = ''/A.json'' \<rparr>
   \<and> ''/A.json'' \<noteq> ''A'' @ ''.json''"
  by (simp add: extractPathInfo_def startsWith_def slice_0_m2_def)

text \<open>
  C8.  A path with fewer than three non-empty segments, or whose resource sub-path splits
  into fewer than two segments, always makes \<open>extractPathInfo\<close> fail with one of its two
  errors; it never returns a descriptor.
\<close>

theorem extractPathInfo_malformed:
  assumes "length (pathSegments u) < 3
           \<or> length (split_on CHR ''/'' (join_with ''/'' (drop 1 (pathSegments u)))) < 2"
  shows "extractPathInfo u =
           Inl (if length (pathSegments u) < 3 then TooFewPathParts u (pathSegments u)
                else TooFewImagePathParts (join_with ''/'' (drop 1 (pathSegments u))))"
  using assms by (auto simp: extractPathInfo_segments Let_def)

theorem extractPathInfo_malformed_witness:
  "length (pathSegments ''/kbd//1.webp'') < 3 \<and>
   extractPathInfo ''/kbd//1.webp'' = Inl (TooFewPathParts ''/kbd//1.webp'' [''kbd'', ''1.webp''])"
proof -
  have seg: "pathSegments ''/kbd//1.webp'' = [''kbd'', ''1.webp'']"
    by (simp add: pathSegments_def startsWith_def)
  have h: "length (pathSegments ''/kbd//1.webp'') < 3
           \<or> length (split_on CHR ''/'' (join_with ''/'' (drop 1 (pathSegments ''/kbd//1.webp'')))) < 2"
    by (simp add: seg)
  show ?thesis
    using extractPathInfo_malformed [OF h] by (simp add: seg)
qed

text \<open>
  C10.  \<open>buildResourceUrl\<close> returns base URL, slash, bucket, slash, resource path when the
  base URL starts with \<open>http://\<close> or \<open>https://\<close>, and the same with \<open>https://\<close> put in
  front otherwise.  A non-empty \<open>baseUrl\<close> query value is the base URL the handler passes to
  the builder, unchanged, whatever the environment holds.
\<close>

theorem buildResourceUrl_spec:
  "(startsWith b ''http://'' \<or> startsWith b ''https://''
      \<longrightarrow> buildResourceUrl b bucket rp = b @ ''/'' @ bucket @ ''/'' @ rp)
   \<and> (\<not> (startsWith b ''http://'' \<or> startsWith b ''https://'')
      \<longrightarrow> buildResourceUrl b bucket rp = ''https://'' @ b @ ''/'' @ bucket @ ''/'' @ rp)
   \<and> (q \<noteq> [] \<longrightarrow> customBaseUrl (Some q) env = q)"
  by (simp add: buildResourceUrl_def customBaseUrl_def truthy_def)

theorem buildResourceUrl_spec_witness:
  "buildResourceUrl ''http://h.example'' ''kbd'' ''A/1.webp'' = ''http://h.example/kbd/A/1.webp''
   \<and> buildResourceUrl ''o.nfarmer.uk'' ''kbd'' ''A/1.webp'' = ''https://o.nfarmer.uk/kbd/A/1.webp''
   \<and> customBaseUrl (Some ''javascript:x'') None = ''javascript:x''"
  using buildResourceUrl_spec [of "''http://h.example''" "''kbd''" "''A/1.webp''" "''javascript:x''" None]
        buildResourceUrl_spec [of "''o.nfarmer.uk''" "''kbd''" "''A/1.webp''" "''javascript:x''" None]
  by (simp add: startsWith_def)


section \<open>Text layout: results\<close>









lemma newline_count: "length (split_on c s) = count_list s c + 1"
  by (induction s) (auto split: list.splits simp: split_on_nonempty)

lemma foldl_snoc_all: "foldl (\<lambda>acc l. acc @ [l]) acc ls = acc @ ls"
  by (induction ls arbitrary: acc) auto

lemma step_pre: "elementLineStep m W ''pre'' = (\<lambda>acc l. acc @ [l])"
  by (rule ext)+ (simp add: elementLineStep_def)

lemma pre_lines: "elementLines m W ''pre'' text = split_on CHR 0x0A text"
  unfolding elementLines_def step_pre foldl_snoc_all by (simp add: hardLines_def)

lemma nowrap_lines: "elementLines m W ''nowrap'' text = [text]"
  by (simp add: elementLines_def hardLines_def elementLineStep_def)






text \<open>
  C4 (as amended).  In mode \<open>nowrap\<close> the text is not split at newlines: the whole text is
  the one hard line and the single output line.  In every other mode the text is first
  split into hard lines at newlines.  In mode \<open>pre\<close> every hard line is exactly one output
  line, so a text with \<open>k\<close> newlines gives \<open>k + 1\<close> output lines.
\<close>

theorem whiteSpace_line_counts:
  "elementLines m W ''nowrap'' text = [text]
   \<and> elementLines m W ''pre'' text = split_on CHR 0x0A text
   \<and> length (elementLines m W ''pre'' text) = count_list text CHR 0x0A + 1
   \<and> hardLines ''pre-wrap'' text = split_on CHR 0x0A text
   \<and> hardLines ''nowrap'' text = [text]
   \<and> (whiteSpace \<noteq> ''nowrap'' \<longrightarrow> hardLines whiteSpace text = split_on CHR 0x0A text)"
  by (simp add: nowrap_lines pre_lines newline_count hardLines_def)

theorem whiteSpace_line_counts_witness:
  "hardLines ''normal'' [CHR ''a'', CHR 0x0A, CHR ''b''] = [''a'', ''b'']
   \<and> elementLines charWidth10 50 ''pre'' [CHR ''a'', CHR 0x0A, CHR ''b''] = [''a'', ''b'']
   \<and> length (elementLines charWidth10 50 ''pre'' [CHR ''a'', CHR 0x0A, CHR ''b'']) = 2
   \<and> elementLines charWidth10 50 ''nowrap'' [CHR ''a'', CHR 0x0A, CHR ''b'']
       = [[CHR ''a'', CHR 0x0A, CHR ''b'']]"
proof -
  have h: "''normal'' \<noteq> ''nowrap''" by simp
  have sp: "split_on CHR 0x0A [CHR ''a'', CHR 0x0A, CHR ''b''] = [''a'', ''b'']" by simp
  from whiteSpace_line_counts [of charWidth10 50 "[CHR ''a'', CHR 0x0A, CHR ''b'']" "''normal''"]
  show ?thesis using h sp by simp
qed

text \<open>
  The claim as written expects two output lines for a text with one newline in mode
  \<open>nowrap\<close>; the code yields one.
\<close>

theorem nowrap_newline_counterexample:
  "elementLines charWidth10 50 ''nowrap'' [CHR ''a'', CHR 0x0A, CHR ''b'']
     = [[CHR ''a'', CHR 0x0A, CHR ''b'']]
   \<and> count_list [CHR ''a'', CHR 0x0A, CHR ''b''] CHR 0x0A = 1
   \<and> length (elementLines charWidth10 50 ''nowrap'' [CHR ''a'', CHR 0x0A, CHR ''b'']) \<noteq> 1 + 1"
  by (simp add: elementLines_def hardLines_def elementLineStep_def)


section \<open>Font cache: results\<close>












section \<open>Handler: results\<close>

lemma handler_server_failure:
  assumes "specialResponse (pathnameOf (originalUrl req)) = None"
    and "fst (render_server world req (pathnameOf (originalUrl req)) fonts) = Inl e"
  shows "fst (handler_server world req fonts)
           = \<lparr> status = 500, contentType = Some ''image/webp'',
               body = EncodedImage WebP \<lparr> cv_width = 800, cv_height = 600, cv_ops = [ErrorCard e] \<rparr> \<rparr>"
  using assms
  by (cases "render_server world req (pathnameOf (originalUrl req)) fonts")
     (simp add: handler_server_def createErrorImage_def)

lemma handler_server_always_image:
  assumes "specialResponse (pathnameOf (originalUrl req)) = None"
  shows "(status (fst (handler_server world req fonts)) = 200
          \<and> (\<exists>canvas. fst (render_server world req (pathnameOf (originalUrl req)) fonts) = Inr canvas
                \<and> body (fst (handler_server world req fonts)) = EncodedImage WebP canvas))
       \<or> (status (fst (handler_server world req fonts)) = 500
          \<and> (\<exists>e. fst (render_server world req (pathnameOf (originalUrl req)) fonts) = Inl e
                \<and> body (fst (handler_server world req fonts)) = createErrorImage e))"
proof (cases "render_server world req (pathnameOf (originalUrl req)) fonts")
  case (Pair r fonts')
  then show ?thesis using assms by (cases r) (simp_all add: handler_server_def)
qed

lemma drawTextOnCanvas_size:
  "cv_width (drawTextOnCanvas world canvas text style) = cv_width canvas
   \<and> cv_height (drawTextOnCanvas world canvas text style) = cv_height canvas"
  by (simp add: drawTextOnCanvas_def Let_def)

lemma drawTextElements_size:
  "drawTextElements world queryParams defaultStyle fontSettings els canvas = Inr canvas'
   \<Longrightarrow> cv_width canvas' = cv_width canvas \<and> cv_height canvas' = cv_height canvas"
proof (induction els arbitrary: canvas)
  case Nil
  then show ?case by simp
next
  case (Cons el els)
  then show ?case
    by (auto simp: Let_def drawTextOnCanvas_size split: sum.splits if_splits)
qed

lemma render_server_size:
  assumes "fetchInputs world req p = Inr (info, base, config, imageBuffer)"
    and "fst (render_server world req p fonts) = Inr canvas"
  shows "cv_width canvas = numberOr (cfg_imageSize_width config) 800
       \<and> cv_height canvas = numberOr (cfg_imageSize_height config) 600"
  using assms
  by (auto simp: render_server_def Let_def surfaceSize_def split: option.splits
           dest!: drawTextElements_size)

lemma render_server_font_independent:
  "fst (render_server world req p fonts) = fst (render_server world req p fonts')"
  by (simp add: render_server_def Let_def split: sum.splits prod.splits option.splits)

lemma drawTextElements_custom_family:
  assumes "el_useR2Font element" and "fs_mode fontSettings = Some ''r2''"
    and "decodeText world (queryParams (the (el_query element))) = Inr text" and "text \<noteq> []"
  shows "drawTextElements world queryParams defaultStyle fontSettings (element # rest) canvas
           = drawTextElements world queryParams defaultStyle fontSettings rest
               (drawTextOnCanvas world canvas text
                  ((mergeStyle defaultStyle (el_style element))\<lparr> st_fontFamily := Some ''CustomR2Font'' \<rparr>))"
  using assms by (simp add: Let_def)

lemma drawElements_declared_family:
  assumes "\<not> avail"
    and "decodeText world (queryParams (the (el_query element))) = Inr text" and "text \<noteq> []"
  shows "drawElements world queryParams defaultStyle fontSettings avail (element # rest) canvas
           = drawElements world queryParams defaultStyle fontSettings avail rest
               (drawElementOnCanvas world canvas text (mergeStyle defaultStyle (el_style element)))"
  using assms by (simp add: Let_def)

lemma loadFont_failure:
  assumes "fst (registerFontFromUrl world url ''CustomR2Font'' fonts) = Inl e"
  shows "\<not> fst (loadFont world (Some url) fonts)"
  using assms
  by (cases "registerFontFromUrl world url ''CustomR2Font'' fonts") (simp add: loadFont_def)

lemma fetchInputs_failure_causes:
  "(extractPathInfo p = Inl pe \<longrightarrow> fetchInputs world req p = Inl (PathError pe))
   \<and> (extractPathInfo p = Inr info
        \<and> fetch world (buildResourceUrl (customBaseUrl (query req ''baseUrl'') (envBaseUrl world))
                          (bucketName info) (configKey info)) = Response False st content
      \<longrightarrow> (\<exists>e. fetchInputs world req p = Inl e))
   \<and> (extractPathInfo p = Inr info
        \<and> fetch world (buildResourceUrl (customBaseUrl (query req ''baseUrl'') (envBaseUrl world))
                          (bucketName info) (imagePath info)) = Response False st content
      \<longrightarrow> (\<exists>e. fetchInputs world req p = Inl e))"
  by (auto simp: fetchInputs_def fetchOk_def Let_def split: sum.splits fetch_result.splits option.splits)

lemma render_server_failure_causes:
  "(fetchInputs world req p = Inl e \<longrightarrow> fst (render_server world req p fonts) = Inl e)
   \<and> (fetchInputs world req p = Inr (info, base, config, imageBuffer)
        \<and> loadImage world imageBuffer = None
      \<longrightarrow> fst (render_server world req p fonts) = Inl ImageDecodeFailed)"
  by (simp add: render_server_def Let_def)

text \<open>
  C2.  In server.js every failure of the \<open>try\<close> block ends in status 500 with the locally
  drawn placeholder, encoded as WebP (\<open>handler_server_failure\<close>, with the causes of failure
  in \<open>fetchInputs_failure_causes\<close> and \<open>render_server_failure_causes\<close>).  The variant with
  \<open>drawElementOnCanvas\<close> instead sends whatever a fetch of a fixed remote URL returns.  For
  the malformed path \<open>/kbd/x\<close>, when that URL answers 404 with an empty body the response
  is status 500 with an empty body, and when that fetch is rejected no response is sent at
  all; server.js answers the same request with the placeholder.
\<close>

theorem placeholder_fetch_fails:
  "fst (handler_element sampleWorld \<lparr> originalUrl = ''/kbd/x'', query = Map.empty \<rparr> noFonts)
     = Some \<lparr> status = 500, contentType = Some ''image/webp'', body = RawBytes [] \<rparr>
   \<and> fst (handler_element (sampleWorld\<lparr> fetch := (\<lambda>url. NetworkError) \<rparr>)
            \<lparr> originalUrl = ''/kbd/x'', query = Map.empty \<rparr> noFonts) = None
   \<and> fst (handler_server sampleWorld \<lparr> originalUrl = ''/kbd/x'', query = Map.empty \<rparr> noFonts)
     = \<lparr> status = 500, contentType = Some ''image/webp'',
         body = EncodedImage WebP \<lparr> cv_width = 800, cv_height = 600,
                  cv_ops = [ErrorCard (PathError (TooFewPathParts ''/kbd/x'' [''kbd'', ''x'']))] \<rparr> \<rparr>"
  by code_simp

text \<open>
  C5.  The configuration has no \<open>imageSize\<close> and the base image is 1024 by 768.  server.js
  composes on an 800 by 600 surface, onto which the image is scaled; the sequential variant
  computes 1024 by 768 for the same configuration and image.  In general the surface of
  server.js never depends on the image (\<open>render_server_size\<close>).
\<close>

theorem surface_size_ignores_image:
  "cfg_imageSize_width sampleConfig = None \<and> cfg_imageSize_height sampleConfig = None
   \<and> loadImage sampleWorld ''RIFF'' = Some \<lparr> img_width = 1024, img_height = 768 \<rparr>
   \<and> fst (handler_server sampleWorld (sampleRequest ''hi'') noFonts) =
       \<lparr> status = 200, contentType = Some ''image/webp'',
         body = EncodedImage WebP
           \<lparr> cv_width = 800, cv_height = 600,
             cv_ops = [DrawImage \<lparr> img_width = 1024, img_height = 768 \<rparr> 0 0 800 600,
                       FillText (Font ''normal'' 24 ''CustomR2Font'') ''#000000'' ''left'' ''hi'' 0 0] \<rparr> \<rparr>
   \<and> surfaceSize_sequential sampleConfig \<lparr> img_width = 1024, img_height = 768 \<rparr> = (1024, 768)"
  by code_simp

text \<open>
  C6.  The font file cannot be downloaded (404), nothing is registered, and the render
  completes with status 200.  The element declares the family \<open>Arial\<close> and has \<open>useR2Font\<close>
  under mode \<open>r2\<close>: server.js draws it with the family \<open>CustomR2Font\<close>; the variant with
  \<open>drawElementOnCanvas\<close>, which tests \<open>r2FontAvailable\<close>, draws it with \<open>Arial\<close>.  In general
  server.js overrides the family whatever became of the font
  (\<open>drawTextElements_custom_family\<close>, \<open>render_server_font_independent\<close>), and the variant
  keeps the declared one when the font is unavailable (\<open>drawElements_declared_family\<close>,
  \<open>loadFont_failure\<close>).
\<close>

theorem failed_font_still_custom_family:
  "ioLog (snd (handler_server sampleWorld (sampleRequest ''ok'') noFonts))
     = [ExistsSync ''.font_cache/d41d8cd9.ttf'',
        FetchUrl ''https://o.nfarmer.uk/kbd/A/A/EMO/fonts/f.ttf'']
   \<and> ''CustomR2Font'' \<notin> registeredFonts (snd (handler_server sampleWorld (sampleRequest ''ok'') noFonts))
   \<and> fst (handler_server sampleWorld (sampleRequest ''ok'') noFonts) =
       \<lparr> status = 200, contentType = Some ''image/webp'',
         body = EncodedImage WebP
           \<lparr> cv_width = 800, cv_height = 600,
             cv_ops = [DrawImage \<lparr> img_width = 1024, img_height = 768 \<rparr> 0 0 800 600,
                       FillText (Font ''normal'' 24 ''CustomR2Font'') ''#000000'' ''left'' ''ok'' 0 0] \<rparr> \<rparr>
   \<and> fst (handler_element sampleWorld (sampleRequest ''ok'') noFonts) =
       Some \<lparr> status = 200, contentType = Some ''image/webp'',
         body = EncodedImage WebP
           \<lparr> cv_width = 800, cv_height = 600,
             cv_ops = [DrawImage \<lparr> img_width = 1024, img_height = 768 \<rparr> 0 0 800 600,
                       DrawBgCanvas 0 0 800 600
                         (emptyStyle\<lparr> st_fontFamily := Some ''Arial'',
                                      st_backgroundColor := Some ''#ffffff'' \<rparr>),
                       FillText (Font ''normal'' 24 ''Arial'') ''#000000'' ''left'' ''ok'' 0 0] \<rparr> \<rparr>"
  by code_simp

text \<open>
  C7 (as amended).  An element whose text decodes to the empty string is skipped: the
  loop continues with the remaining elements on the unchanged canvas, and no error arises
  from it.  This holds for both element loops.
\<close>

theorem empty_text_element_skipped:
  assumes "decodeText world (queryParams (the (el_query element))) = Inr []"
  shows "drawTextElements world queryParams defaultStyle fontSettings (element # rest) canvas
           = drawTextElements world queryParams defaultStyle fontSettings rest canvas
       \<and> drawElements world queryParams defaultStyle fontSettings avail (element # rest) canvas
           = drawElements world queryParams defaultStyle fontSettings avail rest canvas"
  using assms by (simp add: Let_def)

theorem empty_text_element_skipped_witness:
  "decodeText sampleWorld
     ([''t'' \<mapsto> []] (the (el_query \<lparr> el_query = Some ''t'', el_style = None, el_useR2Font = False \<rparr>)))
     = Inr []
   \<and> drawTextElements sampleWorld [''t'' \<mapsto> []] emptyStyle (cfg_fontSettings sampleConfig)
        [\<lparr> el_query = Some ''t'', el_style = None, el_useR2Font = False \<rparr>]
        \<lparr> cv_width = 800, cv_height = 600, cv_ops = [] \<rparr>
       = Inr \<lparr> cv_width = 800, cv_height = 600, cv_ops = [] \<rparr>
   \<and> drawElements sampleWorld [''t'' \<mapsto> []] emptyStyle (cfg_fontSettings sampleConfig) False
        [\<lparr> el_query = Some ''t'', el_style = None, el_useR2Font = False \<rparr>]
        \<lparr> cv_width = 800, cv_height = 600, cv_ops = [] \<rparr>
       = Inr \<lparr> cv_width = 800, cv_height = 600, cv_ops = [] \<rparr>"
proof -
  have h: "decodeText sampleWorld
     ([''t'' \<mapsto> []] (the (el_query \<lparr> el_query = Some ''t'', el_style = None, el_useR2Font = False \<rparr>)))
     = Inr []"
    by (simp add: decodeText_def truthy_def)
  show ?thesis
    using h empty_text_element_skipped
      [where world = sampleWorld and queryParams = "[''t'' \<mapsto> []]"
         and element = "\<lparr> el_query = Some ''t'', el_style = None, el_useR2Font = False \<rparr>"
         and rest = "[]" and defaultStyle = emptyStyle
         and fontSettings = "cfg_fontSettings sampleConfig" and avail = False
         and canvas = "\<lparr> cv_width = 800, cv_height = 600, cv_ops = [] \<rparr>"]
    by simp
qed

text \<open>
  The claim as written also covers whitespace-only text.  The query value \<open>_\<close> decodes
  to one space, which is not falsy: the variant with \<open>drawElementOnCanvas\<close> paints the
  element's background layer and the line, and server.js issues \<open>fillText\<close> for it.
\<close>

theorem whitespace_text_drawn_counterexample:
  "decodeText sampleWorld (Some ''_'') = Inr '' ''
   \<and> fst (handler_element sampleWorld (sampleRequest ''_'') noFonts) =
       Some \<lparr> status = 200, contentType = Some ''image/webp'',
         body = EncodedImage WebP
           \<lparr> cv_width = 800, cv_height = 600,
             cv_ops = [DrawImage \<lparr> img_width = 1024, img_height = 768 \<rparr> 0 0 800 600,
                       DrawBgCanvas 0 0 800 600
                         (emptyStyle\<lparr> st_fontFamily := Some ''Arial'',
                                      st_backgroundColor := Some ''#ffffff'' \<rparr>),
                       FillText (Font ''normal'' 24 ''Arial'') ''#000000'' ''left'' '' '' 0 0] \<rparr> \<rparr>
   \<and> fst (handler_server sampleWorld (sampleRequest ''_'') noFonts) =
       \<lparr> status = 200, contentType = Some ''image/webp'',
         body = EncodedImage WebP
           \<lparr> cv_width = 800, cv_height = 600,
             cv_ops = [DrawImage \<lparr> img_width = 1024, img_height = 768 \<rparr> 0 0 800 600,
                       FillText (Font ''normal'' 24 ''CustomR2Font'') ''#000000'' ''left'' '' '' 0 0] \<rparr> \<rparr>"
  by code_simp

end
